theory Spec2Isabelle
  imports Complex_Main "HOL-Library.Word" "HOL-Library.Sublist"
begin

section \<open>JavaScript strings\<close>

text \<open>
  A JavaScript string is a sequence of 16-bit code units; \<open>length\<close> is the
  source's \<open>.length\<close>. \<open>js\<close> writes a literal of the source as such a sequence.
  A value that may be \<open>undefined\<close> is an \<open>option\<close>, with \<open>None\<close> for \<open>undefined\<close>.
\<close>

type_synonym jsstring = "16 word list"

definition js :: "string \<Rightarrow> jsstring" where
  "js s = map of_char s"

text \<open>
  The code units that \<open>String.prototype.trim\<close> strips: the WhiteSpace and
  LineTerminator productions of ECMAScript (TAB, LF, VT, FF, CR, SP, NBSP, the
  Space_Separator category, LS, PS and the byte order mark).
\<close>

definition isWhiteSpace :: "16 word \<Rightarrow> bool" where
  "isWhiteSpace c \<longleftrightarrow>
     c = 0x0009 \<or> c = 0x000A \<or> c = 0x000B \<or> c = 0x000C \<or> c = 0x000D \<or> c = 0x0020 \<or>
     c = 0x00A0 \<or> c = 0x1680 \<or> (0x2000 \<le> c \<and> c \<le> 0x200A) \<or> c = 0x2028 \<or>
     c = 0x2029 \<or> c = 0x202F \<or> c = 0x205F \<or> c = 0x3000 \<or> c = 0xFEFF"

definition trim :: "jsstring \<Rightarrow> jsstring" where
  "trim s = rev (dropWhile isWhiteSpace (rev (dropWhile isWhiteSpace s)))"

text \<open>Truthiness of a string that may be undefined: \<open>undefined\<close> and \<open>""\<close> are falsy.\<close>

definition truthy :: "jsstring option \<Rightarrow> bool" where
  "truthy v = (case v of None \<Rightarrow> False | Some s \<Rightarrow> s \<noteq> [])"

text \<open>\<open>v || d\<close> on such a value: the default replaces every falsy \<open>v\<close>.\<close>

definition or_else :: "jsstring option \<Rightarrow> jsstring \<Rightarrow> jsstring" where
  "or_else v d = (case v of None \<Rightarrow> d | Some s \<Rightarrow> if s = [] then d else s)"

text \<open>
  A value of a parsed request body: what \<open>express.json()\<close> or
  \<open>express.urlencoded()\<close> can put in a field, and \<open>undefined\<close> for a field that is
  absent. A number is a real (JSON has no NaN; the handlers only test a number for
  zero); of an array or an object only its being one is kept.
\<close>

datatype jsvalue =
  JUndefined | JNull | JBoolean bool | JNumber real | JString jsstring | JArray | JObject

text \<open>Truthiness, as \<open>!v\<close> and \<open>v && ...\<close> test it.\<close>

fun js_truthy :: "jsvalue \<Rightarrow> bool" where
  "js_truthy JUndefined = False"
| "js_truthy JNull = False"
| "js_truthy (JBoolean b) = b"
| "js_truthy (JNumber x) = (x \<noteq> 0)"
| "js_truthy (JString s) = (s \<noteq> [])"
| "js_truthy JArray = True"
| "js_truthy JObject = True"

section \<open>Validator\<close>

text \<open>
  \<open>new URL(string)\<close> is the platform's URL parser, not code of this repository: it is a
  parameter of the model. It returns the parsed URL, of which the code reads only
  \<open>protocol\<close> (the scheme followed by a colon), or throws, which is \<open>None\<close>.
\<close>

record parsed_url =
  protocol :: jsstring

type_synonym url_parser = "jsstring \<Rightarrow> parsed_url option"

text \<open>\<open>isValidUrl\<close> of server/routes/api.js: the parse succeeds.\<close>

definition isValidUrl :: "url_parser \<Rightarrow> jsstring \<Rightarrow> bool" where
  "isValidUrl URL string = (case URL string of Some _ \<Rightarrow> True | None \<Rightarrow> False)"

text \<open>\<open>isValidUrl\<close> of src/components/URLShortener.jsx: the parse succeeds and the
  protocol is http: or https:.\<close>

definition isValidUrl_client :: "url_parser \<Rightarrow> jsstring \<Rightarrow> bool" where
  "isValidUrl_client URL string =
     (case URL string of
        Some u \<Rightarrow> protocol u = js ''http:'' \<or> protocol u = js ''https:''
      | None \<Rightarrow> False)"

text \<open>The character class \<open>[a-zA-Z0-9_-]\<close>.\<close>

definition slugChar :: "16 word \<Rightarrow> bool" where
  "slugChar c \<longleftrightarrow>
     (0x61 \<le> c \<and> c \<le> 0x7A) \<or> (0x41 \<le> c \<and> c \<le> 0x5A) \<or> (0x30 \<le> c \<and> c \<le> 0x39) \<or>
     c = 0x5F \<or> c = 0x2D"

text \<open>\<open>/^[a-zA-Z0-9_-]+$/.test(slug)\<close>: one or more characters, all of the class.\<close>

definition slugRegex_test :: "jsstring \<Rightarrow> bool" where
  "slugRegex_test slug \<longleftrightarrow> slug \<noteq> [] \<and> list_all slugChar slug"

definition isValidSlug :: "jsstring option \<Rightarrow> bool" where
  "isValidSlug slug =
     (case slug of
        None \<Rightarrow> True
      | Some s \<Rightarrow>
          if s = [] then True
          else slugRegex_test s \<and> length s \<ge> 3 \<and> length s \<le> 50)"

section \<open>Shorten proxy: POST /api/shorten\<close>

text \<open>
  The request body, destructured as \<open>{url, customSlug}\<close>: each field holds whatever
  value the client sent, or is absent.
\<close>

record shorten_body =
  body_url :: jsvalue
  body_customSlug :: jsvalue

text \<open>\<open>rebrandlyData\<close>, the body of the provider's create-link request.\<close>

record rebrandlyData =
  destination :: jsstring
  domain_fullName :: jsstring
  slashtag :: "jsstring option"

text \<open>\<open>response.data\<close> of a create-link call that succeeded.\<close>

record link_data =
  link_shortUrl :: jsstring
  link_id :: jsstring
  link_slashtag :: "jsstring option"
  link_createdAt :: jsstring

text \<open>
  The error the \<open>catch\<close> blocks receive, with what they read of it: \<open>error.response\<close>
  (absent when no response came), \<open>error.code\<close> and \<open>error.message\<close>; of the response,
  \<open>status\<close> and \<open>data.errors[i].message\<close>. It is the error axios rejects with, or an
  error the handler's own code throws, which has neither response nor code.
\<close>

record field_error =
  message :: "jsstring option"

record error_data =
  errors :: "field_error list option"

record error_response =
  status :: nat
  data :: "error_data option"

record axios_error =
  response :: "error_response option"
  code :: "jsstring option"
  error_message :: jsstring

text \<open>The provider's create-link operation, as the handler sees it.\<close>

type_synonym links_api = "rebrandlyData \<Rightarrow> axios_error + link_data"

datatype shorten_code =
  MISSING_URL | INVALID_URL | INVALID_SLUG | API_KEY_ERROR | VALIDATION_ERROR
  | RATE_LIMIT | TIMEOUT | INTERNAL_ERROR

record success_body =
  sb_shortUrl :: jsstring
  sb_originalUrl :: jsstring
  sb_id :: jsstring
  sb_customSlug :: "jsstring option"
  sb_createdAt :: jsstring

text \<open>
  What the handler sends: \<open>res.status(n).json({error, code})\<close> or
  \<open>res.json({success: true, ...})\<close>.
\<close>

datatype shorten_reply =
  Failure nat jsstring shorten_code
  | Success success_body

text \<open>\<open>error.response?.status\<close>.\<close>

definition response_status :: "axios_error \<Rightarrow> nat option" where
  "response_status e = map_option status (response e)"

text \<open>\<open>error.response.data?.errors?.[0]?.message\<close>.\<close>

definition first_error_message :: "axios_error \<Rightarrow> jsstring option" where
  "first_error_message e =
     (case response e of
        None \<Rightarrow> None
      | Some r \<Rightarrow>
          (case data r of
             None \<Rightarrow> None
           | Some d \<Rightarrow>
               (case errors d of
                  None \<Rightarrow> None
                | Some [] \<Rightarrow> None
                | Some (fe # _) \<Rightarrow> message fe)))"

text \<open>The \<open>catch\<close> block of the handler.\<close>

definition shorten_catch :: "axios_error \<Rightarrow> shorten_reply" where
  "shorten_catch e =
     (if response_status e = Some 403 then
        Failure 403 (js ''Invalid API key or quota exceeded'') API_KEY_ERROR
      else if response_status e = Some 422 then
        Failure 422
          (or_else (first_error_message e) (js ''Invalid URL or custom slug already exists''))
          VALIDATION_ERROR
      else if response_status e = Some 429 then
        Failure 429 (js ''Rate limit exceeded. Please try again later.'') RATE_LIMIT
      else if code e = Some (js ''ECONNABORTED'') then
        Failure 408 (js ''Request timeout. Please try again.'') TIMEOUT
      else
        Failure 500 (js ''Failed to shorten URL. Please try again.'') INTERNAL_ERROR)"

text \<open>
  \<open>v.trim()\<close>: the trimmed string when \<open>v\<close> is a string; for every other value
  \<open>v.trim\<close> is not a function (or \<open>v\<close> has no properties) and the call throws a
  TypeError, whose message the handler only logs.
\<close>

definition typeError :: "jsstring \<Rightarrow> axios_error" where
  "typeError msg = \<lparr>response = None, code = None, error_message = msg\<rparr>"

fun call_trim :: "jsvalue \<Rightarrow> axios_error + jsstring" where
  "call_trim (JString s) = Inr (trim s)"
| "call_trim v = Inl (typeError (js ''trim is not a function''))"

text \<open>
  The custom slug as both of its tests read it, \<open>customSlug && ... customSlug.trim()\<close>:
  nothing for a falsy \<open>customSlug\<close>, else the trimmed slug, or the TypeError.
\<close>

definition trimmed_customSlug :: "jsvalue \<Rightarrow> axios_error + jsstring option" where
  "trimmed_customSlug v =
     (if js_truthy v then
        (case call_trim v of Inl thrown \<Rightarrow> Inl thrown | Inr s \<Rightarrow> Inr (Some s))
      else Inr None)"

text \<open>
  The values on which \<open>v && v.trim()\<close> throws: the truthy ones that are not strings.
\<close>

definition trim_throws :: "jsvalue \<Rightarrow> bool" where
  "trim_throws v \<longleftrightarrow> js_truthy v \<and> (\<forall>s. v \<noteq> JString s)"

text \<open>
  The handler, from the destructured body on. It returns the reply and the requests it
  sent to the provider, in order: every \<open>axios.post\<close> of the handler appends one. The
  whole body of the handler is inside the \<open>try\<close>, so what \<open>trim\<close> throws reaches the
  \<open>catch\<close> block as a provider error does.
\<close>

definition shorten :: "url_parser \<Rightarrow> links_api \<Rightarrow> shorten_body \<Rightarrow> shorten_reply \<times> rebrandlyData list" where
  "shorten URL post req =
     (if \<not> js_truthy (body_url req) then
        (Failure 400 (js ''URL is required'') MISSING_URL, [])
      else
        case call_trim (body_url req) of
          Inl thrown \<Rightarrow> (shorten_catch thrown, [])
        | Inr u \<Rightarrow>
            if u = [] then
              (Failure 400 (js ''URL is required'') MISSING_URL, [])
            else if \<not> isValidUrl URL u then
              (Failure 400 (js ''Please enter a valid URL'') INVALID_URL, [])
            else
              case trimmed_customSlug (body_customSlug req) of
                Inl thrown \<Rightarrow> (shorten_catch thrown, [])
              | Inr slug \<Rightarrow>
                  if \<not> isValidSlug slug then
                    (Failure 400
                       (js ''Custom slug must be 3-50 characters and contain only letters, numbers, hyphens, and underscores'')
                       INVALID_SLUG, [])
                  else
                    let rebrandly =
                          \<lparr>destination = u,
                           domain_fullName = js ''rebrand.ly'',
                           slashtag = (if truthy slug then slug else None)\<rparr>
                    in (case post rebrandly of
                          Inl e \<Rightarrow> (shorten_catch e, [rebrandly])
                        | Inr d \<Rightarrow>
                            (Success
                               \<lparr>sb_shortUrl = link_shortUrl d,
                                sb_originalUrl = u,
                                sb_id = link_id d,
                                sb_customSlug =
                                  (if truthy (link_slashtag d) then link_slashtag d else None),
                                sb_createdAt = link_createdAt d\<rparr>,
                             [rebrandly])))"

text \<open>
  The handler from its first line, \<open>const { url, customSlug } = req.body\<close>.
  \<open>req.body\<close> is what the body parsers of server.js left there: the parsed body, or
  \<open>undefined\<close> (\<open>None\<close>) where they leave it unset, and destructuring \<open>undefined\<close>
  throws a TypeError, inside the \<open>try\<close> as well.
\<close>

definition shorten_route :: "url_parser \<Rightarrow> links_api \<Rightarrow> shorten_body option \<Rightarrow> shorten_reply \<times> rebrandlyData list" where
  "shorten_route URL post body =
     (case body of
        None \<Rightarrow> (shorten_catch (typeError (js ''Cannot destructure property of req.body'')), [])
      | Some req \<Rightarrow> shorten URL post req)"

text \<open>The requests on which the handler's own code throws before it calls the provider.\<close>

definition throws_before_call :: "url_parser \<Rightarrow> shorten_body option \<Rightarrow> bool" where
  "throws_before_call URL body =
     (case body of
        None \<Rightarrow> True
      | Some req \<Rightarrow>
          trim_throws (body_url req)
          \<or> (\<exists>u. body_url req = JString u \<and> trim u \<noteq> [] \<and> isValidUrl URL (trim u)
                \<and> trim_throws (body_customSlug req)))"

section \<open>Credential probe: GET /api/test\<close>

record account_data =
  account_id :: jsstring
  account_email :: jsstring
  account_fullName :: jsstring
  account_createdAt :: jsstring

datatype test_code = INVALID_API_KEY | TEST_FAILED

text \<open>\<open>details: error.response?.data || error.message\<close>.\<close>

datatype test_details = Data error_data | Message jsstring

record test_failure =
  success :: bool
  failure_error :: jsstring
  failure_code :: test_code
  details :: test_details

datatype test_reply =
  TestOk account_data
  | TestFailure nat test_failure

definition test_catch :: "axios_error \<Rightarrow> test_reply" where
  "test_catch e =
     TestFailure 500
       \<lparr>success = False,
        failure_error = js ''API key test failed'',
        failure_code = (if response_status e = Some 403 then INVALID_API_KEY else TEST_FAILED),
        details =
          (case Option.bind (response e) data of
             Some d \<Rightarrow> Data d
           | None \<Rightarrow> Message (error_message e))\<rparr>"

text \<open>The handler, given the outcome of its one call of the provider's account endpoint.\<close>

definition test_route :: "axios_error + account_data \<Rightarrow> test_reply" where
  "test_route outcome = (case outcome of Inl e \<Rightarrow> test_catch e | Inr d \<Rightarrow> TestOk d)"

section \<open>History store (URLShortener.jsx)\<close>

text \<open>
  A history entry. \<open>entry_id\<close> is the source's \<open>id\<close>, the value of \<open>Date.now()\<close> when
  the entry is made (milliseconds since the epoch); the other fields are
  \<open>originalUrl\<close>, \<open>shortUrl\<close>, \<open>customSlug\<close>, \<open>createdAt\<close> and \<open>rebrandlyId\<close>.
\<close>

record history_entry =
  entry_id :: int
  entry_originalUrl :: jsstring
  entry_shortUrl :: jsstring
  entry_customSlug :: "jsstring option"
  entry_createdAt :: jsstring
  entry_rebrandlyId :: jsstring


text \<open>\<open>prev => [newEntry, ...prev.slice(0, 9)]\<close>.\<close>

definition addToHistory :: "history_entry \<Rightarrow> history_entry list \<Rightarrow> history_entry list" where
  "addToHistory e prev = e # take 9 prev"

text \<open>\<open>prev.filter(item => item.id !== id)\<close>.\<close>

definition deleteFromHistory :: "int \<Rightarrow> history_entry list \<Rightarrow> history_entry list" where
  "deleteFromHistory i prev = filter (\<lambda>item. entry_id item \<noteq> i) prev"

definition clearAllHistory :: "history_entry list \<Rightarrow> history_entry list" where
  "clearAllHistory prev = []"

text \<open>Recording a sequence of entries, the first of the list first.\<close>

fun record_all :: "history_entry list \<Rightarrow> history_entry list \<Rightarrow> history_entry list" where
  "record_all [] h = h"
| "record_all (e # es) h = record_all es (addToHistory e h)"

text \<open>
  Loading the history at mount: \<open>JSON.parse(localStorage.getItem('urlHistory') || '[]')\<close>.
  \<open>getItem\<close> returns the stored text or \<open>null\<close> (\<open>None\<close>). \<open>JSON.parse\<close> is the
  platform's and a parameter here: it throws a SyntaxError or returns a value, which
  is an array of entries or some other JSON value. Nothing catches what it throws.
\<close>

datatype js_error = SyntaxError

datatype json_value = EntryArray "history_entry list" | OtherValue

type_synonym json_parser = "jsstring \<Rightarrow> js_error + json_value"

definition load_history :: "json_parser \<Rightarrow> jsstring option \<Rightarrow> js_error + json_value" where
  "load_history JSON_parse item = JSON_parse (or_else item (js ''[]''))"

text \<open>
  The entries a mount puts into the state: the array \<open>JSON.parse\<close> returned, as it is.
\<close>

definition stored_entries :: "json_parser \<Rightarrow> jsstring option \<Rightarrow> history_entry list" where
  "stored_entries JSON_parse item =
     (case load_history JSON_parse item of
        Inr (EntryArray h) \<Rightarrow> h
      | _ \<Rightarrow> [])"

text \<open>
  The histories the component holds in a session that finds \<open>item\<close> in storage. The
  state starts as \<open>useState([])\<close>; the mount effect replaces it by the loaded array,
  not truncated; then come the three updates. Each history is paired with the entries
  the session has recorded so far, the latest first. The updates of the initial
  state are kept in the set also where the load throws (the component then fails) or
  returns a value that is not an array of entries (the state then is no list of
  entries): that only adds states.
\<close>

inductive_set histories :: "json_parser \<Rightarrow> jsstring option \<Rightarrow> (history_entry list \<times> history_entry list) set"
  for JSON_parse :: json_parser and item :: "jsstring option" where
  initial_history: "([], []) \<in> histories JSON_parse item"
| loaded: "load_history JSON_parse item = Inr (EntryArray h) \<Longrightarrow> ([], h) \<in> histories JSON_parse item"
| added: "(recorded, h) \<in> histories JSON_parse item
    \<Longrightarrow> (e # recorded, addToHistory e h) \<in> histories JSON_parse item"
| deleted: "(recorded, h) \<in> histories JSON_parse item
    \<Longrightarrow> (recorded, deleteFromHistory i h) \<in> histories JSON_parse item"
| cleared: "(recorded, h) \<in> histories JSON_parse item
    \<Longrightarrow> (recorded, clearAllHistory h) \<in> histories JSON_parse item"





section \<open>Presentation state (URLShortener.jsx)\<close>

datatype api_status = Connected | Error | Unknown

record view_state =
  url :: jsstring
  customSlug :: jsstring
  shortenedUrl :: jsstring
  isLoading :: bool
  copied :: bool
  error :: jsstring
  urlHistory :: "history_entry list"
  apiStatus :: api_status

definition initial_state :: view_state where
  "initial_state =
     \<lparr>url = [], customSlug = [], shortenedUrl = [], isLoading = False, copied = False,
      error = [], urlHistory = [], apiStatus = Unknown\<rparr>"

text \<open>
  \<open>testApiConnection\<close>, once its fetch has settled: \<open>Some b\<close> is \<open>data.success\<close> of the
  reply, \<open>None\<close> a fetch that threw.
\<close>

definition testApiConnection :: "bool option \<Rightarrow> view_state \<Rightarrow> view_state" where
  "testApiConnection probe st =
     (case probe of
        Some True \<Rightarrow> st\<lparr>apiStatus := Connected\<rparr>
      | Some False \<Rightarrow> st\<lparr>apiStatus := Error\<rparr>
      | None \<Rightarrow> st\<lparr>apiStatus := Error\<rparr>)"

text \<open>The body of the request \<open>shortenUrl\<close> sends to the proxy.\<close>

record fetch_body =
  fetch_url :: jsstring
  fetch_customSlug :: "jsstring option"

text \<open>\<open>fullUrl.match(/^https?:\/\//)\<close>.\<close>

definition has_http_prefix :: "jsstring \<Rightarrow> bool" where
  "has_http_prefix s \<longleftrightarrow> take 7 s = js ''http://'' \<or> take 8 s = js ''https://''"

definition fullUrl_of :: "jsstring \<Rightarrow> jsstring" where
  "fullUrl_of u = (if has_http_prefix (trim u) then trim u else js ''https://'' @ trim u)"

text \<open>
  \<open>shortenUrl\<close> up to its \<open>fetch\<close>: the new state, and the request it issues if it
  issues one.
\<close>

definition shortenUrl :: "url_parser \<Rightarrow> view_state \<Rightarrow> view_state \<times> fetch_body option" where
  "shortenUrl URL st =
     (if trim (url st) = [] then (st\<lparr>error := js ''Please enter a URL''\<rparr>, None)
      else if \<not> isValidUrl_client URL (fullUrl_of (url st)) then
        (st\<lparr>error := js ''Please enter a valid URL''\<rparr>, None)
      else
        (st\<lparr>isLoading := True, error := [], shortenedUrl := []\<rparr>,
         Some \<lparr>fetch_url = fullUrl_of (url st),
               fetch_customSlug =
                 (if trim (customSlug st) = [] then None else Some (trim (customSlug st)))\<rparr>))"

text \<open>\<open>handleKeyPress\<close>, given \<open>e.key\<close>.\<close>

definition handleKeyPress :: "url_parser \<Rightarrow> jsstring \<Rightarrow> view_state \<Rightarrow> view_state \<times> fetch_body option" where
  "handleKeyPress URL key st =
     (if key = js ''Enter'' \<and> \<not> isLoading st then shortenUrl URL st else (st, None))"

text \<open>
  The shorten button: \<open>onClick={shortenUrl}\<close> with
  \<open>disabled={isLoading || apiStatus === 'error'}\<close>; a disabled button does not run its
  handler.
\<close>

definition button_disabled :: "view_state \<Rightarrow> bool" where
  "button_disabled st \<longleftrightarrow> isLoading st \<or> apiStatus st = Error"

definition click_button :: "url_parser \<Rightarrow> view_state \<Rightarrow> view_state \<times> fetch_body option" where
  "click_button URL st = (if button_disabled st then (st, None) else shortenUrl URL st)"

section \<open>Facts about the string operations and the catch block\<close>

lemma trim_Nil: "trim [] = []"
  by (simp add: trim_def)

lemma slugChar_space: "\<not> slugChar 0x20"
  by (simp add: slugChar_def)

lemma slugChar_dot: "\<not> slugChar 0x2E"
  by (simp add: slugChar_def)

lemma isValidSlug_Some:
  "isValidSlug (Some s) \<longleftrightarrow> s = [] \<or> (list_all slugChar s \<and> 3 \<le> length s \<and> length s \<le> 50)"
  by (auto simp: isValidSlug_def slugRegex_test_def)

lemma shorten_catch_not_400: "shorten_catch e \<noteq> Failure 400 m c"
  by (simp add: shorten_catch_def)

lemma shorten_catch_code:
  "shorten_catch e \<noteq> Failure n m MISSING_URL"
  "shorten_catch e \<noteq> Failure n m INVALID_URL"
  "shorten_catch e \<noteq> Failure n m INVALID_SLUG"
  by (simp_all add: shorten_catch_def)

lemma shorten_catch_typeError:
  "shorten_catch (typeError msg)
     = Failure 500 (js ''Failed to shorten URL. Please try again.'') INTERNAL_ERROR"
  by (simp add: shorten_catch_def typeError_def response_status_def)

lemma isValidSlug_None: "isValidSlug None"
  by (simp add: isValidSlug_def)

section \<open>URL validation\<close>

text \<open>
  C1. The claim: URL validation succeeds only for a string that parses as an absolute
  URL with scheme http or https, and the proxy rejects a url of any other scheme with
  INVALID_URL before it contacts the provider. The component's \<open>isValidUrl\<close> does
  check the protocol. The proxy's \<open>isValidUrl\<close> does not: whenever the platform parses
  the trimmed url, under whatever protocol, the proxy does not answer INVALID_URL and
  sends the url to the provider as the destination.
\<close>

theorem shorten_forwards_any_scheme:
  "(isValidUrl_client URL s \<longleftrightarrow>
      (\<exists>p. URL s = Some p \<and> (protocol p = js ''http:'' \<or> protocol p = js ''https:'')))
   \<and> (URL (trim u) = Some q \<and> trim u \<noteq> []
        \<and> protocol q \<noteq> js ''http:'' \<and> protocol q \<noteq> js ''https:'' \<longrightarrow>
      \<not> isValidUrl_client URL (trim u) \<and> isValidUrl URL (trim u)
      \<and> snd (shorten URL post \<lparr>body_url = JString u, body_customSlug = JUndefined\<rparr>)
          = [\<lparr>destination = trim u, domain_fullName = js ''rebrand.ly'', slashtag = None\<rparr>]
      \<and> (\<forall>n m. fst (shorten URL post \<lparr>body_url = JString u, body_customSlug = JUndefined\<rparr>)
            \<noteq> Failure n m INVALID_URL))"
proof -
  have client: "isValidUrl_client URL s \<longleftrightarrow>
      (\<exists>p. URL s = Some p \<and> (protocol p = js ''http:'' \<or> protocol p = js ''https:''))"
    by (cases "URL s") (simp_all add: isValidUrl_client_def)
  have server: "URL (trim u) = Some q \<and> trim u \<noteq> []
        \<and> protocol q \<noteq> js ''http:'' \<and> protocol q \<noteq> js ''https:'' \<longrightarrow>
      \<not> isValidUrl_client URL (trim u) \<and> isValidUrl URL (trim u)
      \<and> snd (shorten URL post \<lparr>body_url = JString u, body_customSlug = JUndefined\<rparr>)
          = [\<lparr>destination = trim u, domain_fullName = js ''rebrand.ly'', slashtag = None\<rparr>]
      \<and> (\<forall>n m. fst (shorten URL post \<lparr>body_url = JString u, body_customSlug = JUndefined\<rparr>)
            \<noteq> Failure n m INVALID_URL)"
    by (auto simp: shorten_def Let_def truthy_def trimmed_customSlug_def isValidSlug_def
        isValidUrl_def isValidUrl_client_def trim_Nil shorten_catch_code
        split: option.splits sum.splits)
  from client server show ?thesis by blast
qed

text \<open>
  At \<open>{url: "ftp://example.com"}\<close>, with a parser that reads the protocol \<open>ftp:\<close> there
  and a provider that creates the link: the proxy answers with the short link.
\<close>

theorem shorten_forwards_any_scheme_witness:
  "shorten (\<lambda>s. if s = js ''ftp://example.com'' then Some \<lparr>protocol = js ''ftp:''\<rparr> else None)
      (\<lambda>d. Inr \<lparr>link_shortUrl = js ''https://rebrand.ly/abc'', link_id = js ''1'',
                 link_slashtag = Some (js ''abc''), link_createdAt = js ''2024''\<rparr>)
      \<lparr>body_url = JString (js ''ftp://example.com''), body_customSlug = JUndefined\<rparr>
    = (Success \<lparr>sb_shortUrl = js ''https://rebrand.ly/abc'', sb_originalUrl = js ''ftp://example.com'',
                sb_id = js ''1'', sb_customSlug = Some (js ''abc''), sb_createdAt = js ''2024''\<rparr>,
       [\<lparr>destination = js ''ftp://example.com'', domain_fullName = js ''rebrand.ly'',
         slashtag = None\<rparr>])
   \<and> \<not> isValidUrl_client
         (\<lambda>s. if s = js ''ftp://example.com'' then Some \<lparr>protocol = js ''ftp:''\<rparr> else None)
         (js ''ftp://example.com'')"
  using shorten_forwards_any_scheme
    [where URL = "\<lambda>s. if s = js ''ftp://example.com'' then Some \<lparr>protocol = js ''ftp:''\<rparr> else None"
       and u = "js ''ftp://example.com''" and q = "\<lparr>protocol = js ''ftp:''\<rparr>"
       and post = "\<lambda>d. Inr \<lparr>link_shortUrl = js ''https://rebrand.ly/abc'', link_id = js ''1'',
                 link_slashtag = Some (js ''abc''), link_createdAt = js ''2024''\<rparr>"]
  by (simp add: shorten_def Let_def truthy_def trimmed_customSlug_def isValidSlug_def
      isValidUrl_def isValidUrl_client_def trim_def isWhiteSpace_def js_def)

section \<open>Provider failures of the shorten proxy\<close>

text \<open>
  C2, as amended. When the provider call fails with error \<open>e\<close>, the proxy's reply is
  \<open>shorten_catch e\<close>, which is: 403 with API_KEY_ERROR for a response of status 403;
  422 with VALIDATION_ERROR for a response of status 422, the message being the
  provider's first field-error message when that is present and not the empty string,
  and the generic text when it is absent or empty; 429 with RATE_LIMIT for status 429;
  408 with TIMEOUT for any other error whose code is ECONNABORTED (a timeout: no
  response, that code); and 500 with INTERNAL_ERROR for every other error.
\<close>

theorem shorten_catch_mapping:
  "(post d = Inl e \<and> snd (shorten URL post req) = [d] \<longrightarrow>
      fst (shorten URL post req) = shorten_catch e)
   \<and> (response_status e = Some 403 \<longrightarrow>
      shorten_catch e = Failure 403 (js ''Invalid API key or quota exceeded'') API_KEY_ERROR)
   \<and> (response_status e = Some 422 \<and> first_error_message e = Some m \<and> m \<noteq> [] \<longrightarrow>
      shorten_catch e = Failure 422 m VALIDATION_ERROR)
   \<and> (response_status e = Some 422
        \<and> (first_error_message e = None \<or> first_error_message e = Some []) \<longrightarrow>
      shorten_catch e
        = Failure 422 (js ''Invalid URL or custom slug already exists'') VALIDATION_ERROR)
   \<and> (response_status e = Some 429 \<longrightarrow>
      shorten_catch e
        = Failure 429 (js ''Rate limit exceeded. Please try again later.'') RATE_LIMIT)
   \<and> (response_status e \<notin> {Some 403, Some 422, Some 429}
        \<and> code e = Some (js ''ECONNABORTED'') \<longrightarrow>
      shorten_catch e = Failure 408 (js ''Request timeout. Please try again.'') TIMEOUT)
   \<and> (response_status e \<notin> {Some 403, Some 422, Some 429}
        \<and> code e \<noteq> Some (js ''ECONNABORTED'') \<longrightarrow>
      shorten_catch e
        = Failure 500 (js ''Failed to shorten URL. Please try again.'') INTERNAL_ERROR)"
proof -
  have h: "post d = Inl e \<and> snd (shorten URL post req) = [d] \<longrightarrow>
      fst (shorten URL post req) = shorten_catch e"
    by (auto simp: shorten_def Let_def split: sum.splits if_splits)
  have a: "response_status e = Some 403 \<longrightarrow>
      shorten_catch e = Failure 403 (js ''Invalid API key or quota exceeded'') API_KEY_ERROR"
    by (simp add: shorten_catch_def)
  have b1: "response_status e = Some 422 \<and> first_error_message e = Some m \<and> m \<noteq> [] \<longrightarrow>
      shorten_catch e = Failure 422 m VALIDATION_ERROR"
    by (simp add: shorten_catch_def or_else_def)
  have b2: "response_status e = Some 422
        \<and> (first_error_message e = None \<or> first_error_message e = Some []) \<longrightarrow>
      shorten_catch e
        = Failure 422 (js ''Invalid URL or custom slug already exists'') VALIDATION_ERROR"
    by (auto simp: shorten_catch_def or_else_def)
  have c: "response_status e = Some 429 \<longrightarrow>
      shorten_catch e
        = Failure 429 (js ''Rate limit exceeded. Please try again later.'') RATE_LIMIT"
    by (simp add: shorten_catch_def)
  have t: "response_status e \<notin> {Some 403, Some 422, Some 429}
        \<and> code e = Some (js ''ECONNABORTED'') \<longrightarrow>
      shorten_catch e = Failure 408 (js ''Request timeout. Please try again.'') TIMEOUT"
    by (simp add: shorten_catch_def)
  have f: "response_status e \<notin> {Some 403, Some 422, Some 429}
        \<and> code e \<noteq> Some (js ''ECONNABORTED'') \<longrightarrow>
      shorten_catch e
        = Failure 500 (js ''Failed to shorten URL. Please try again.'') INTERNAL_ERROR"
    by (simp add: shorten_catch_def)
  from h a b1 b2 c t f show ?thesis by blast
qed

text \<open>
  The provider answers 422 with \<open>errors: [{message: "slashtag already exists"}]\<close>: the
  reply is 422, VALIDATION_ERROR, with exactly that message. The provider times out:
  the reply is 408, TIMEOUT.
\<close>

theorem shorten_catch_mapping_witness:
  "shorten_catch
      \<lparr>response = Some \<lparr>status = 422,
          data = Some \<lparr>errors = Some [\<lparr>message = Some (js ''slashtag already exists'')\<rparr>]\<rparr>\<rparr>,
       code = Some (js ''ERR_BAD_REQUEST''),
       error_message = js ''Request failed with status code 422''\<rparr>
     = Failure 422 (js ''slashtag already exists'') VALIDATION_ERROR
   \<and> shorten_catch
      \<lparr>response = None, code = Some (js ''ECONNABORTED''),
       error_message = js ''timeout of 10000ms exceeded''\<rparr>
     = Failure 408 (js ''Request timeout. Please try again.'') TIMEOUT"
  using shorten_catch_mapping
    [where e = "\<lparr>response = Some \<lparr>status = 422,
          data = Some \<lparr>errors = Some [\<lparr>message = Some (js ''slashtag already exists'')\<rparr>]\<rparr>\<rparr>,
       code = Some (js ''ERR_BAD_REQUEST''),
       error_message = js ''Request failed with status code 422''\<rparr>"
       and m = "js ''slashtag already exists''"]
    shorten_catch_mapping
    [where e = "\<lparr>response = None, code = Some (js ''ECONNABORTED''),
       error_message = js ''timeout of 10000ms exceeded''\<rparr>"]
  by (simp add: response_status_def first_error_message_def js_def)

text \<open>
  The claim as written fails where the provider's first field-error message is
  present and is the empty string: \<open>""\<close> is falsy, so the reply carries the generic
  text, not the provider's message.
\<close>

theorem shorten_catch_empty_message:
  "first_error_message
      \<lparr>response = Some \<lparr>status = 422, data = Some \<lparr>errors = Some [\<lparr>message = Some []\<rparr>]\<rparr>\<rparr>,
       code = Some (js ''ERR_BAD_REQUEST''),
       error_message = js ''Request failed with status code 422''\<rparr> = Some []
   \<and> shorten_catch
      \<lparr>response = Some \<lparr>status = 422, data = Some \<lparr>errors = Some [\<lparr>message = Some []\<rparr>]\<rparr>\<rparr>,
       code = Some (js ''ERR_BAD_REQUEST''),
       error_message = js ''Request failed with status code 422''\<rparr>
     = Failure 422 (js ''Invalid URL or custom slug already exists'') VALIDATION_ERROR
   \<and> js ''Invalid URL or custom slug already exists'' \<noteq> []"
  by (simp add: shorten_catch_def or_else_def response_status_def first_error_message_def js_def)

section \<open>Slug validation\<close>

text \<open>
  C5. Slug validation accepts exactly the absent slug, the empty slug, and the
  non-empty strings over \<open>[A-Za-z0-9_-]\<close> of length 3 to 50; a string of length 2 or
  51, or one containing a space or a full stop, is rejected.
\<close>

theorem isValidSlug_exact:
  "(isValidSlug slug \<longleftrightarrow>
      slug = None \<or> slug = Some [] \<or>
      (\<exists>s. slug = Some s \<and> s \<noteq> [] \<and> list_all slugChar s \<and> 3 \<le> length s \<and> length s \<le> 50))
   \<and> (length s2 = 2 \<longrightarrow> \<not> isValidSlug (Some s2))
   \<and> (length s51 = 51 \<longrightarrow> \<not> isValidSlug (Some s51))
   \<and> (0x20 \<in> set t \<or> 0x2E \<in> set t \<longrightarrow> \<not> isValidSlug (Some t))"
proof -
  have exact: "isValidSlug slug \<longleftrightarrow>
      slug = None \<or> slug = Some [] \<or>
      (\<exists>s. slug = Some s \<and> s \<noteq> [] \<and> list_all slugChar s \<and> 3 \<le> length s \<and> length s \<le> 50)"
  proof (cases slug)
    case None
    then show ?thesis by (simp add: isValidSlug_def)
  next
    case (Some s)
    then show ?thesis by (auto simp: isValidSlug_Some)
  qed
  have two: "length s2 = 2 \<longrightarrow> \<not> isValidSlug (Some s2)"
    by (auto simp: isValidSlug_Some)
  have long: "length s51 = 51 \<longrightarrow> \<not> isValidSlug (Some s51)"
    by (auto simp: isValidSlug_Some)
  have bad: "0x20 \<in> set t \<or> 0x2E \<in> set t \<longrightarrow> \<not> isValidSlug (Some t)"
    using slugChar_space slugChar_dot
    by (auto simp: isValidSlug_Some list_all_iff)
  from exact two long bad show ?thesis by blast
qed

theorem isValidSlug_exact_witness:
  "isValidSlug (Some (js ''my-link_01''))
   \<and> \<not> isValidSlug (Some (js ''ab''))
   \<and> \<not> isValidSlug (Some (replicate 51 0x61))
   \<and> isValidSlug (Some (replicate 50 0x61))
   \<and> \<not> isValidSlug (Some (js ''my link''))
   \<and> \<not> isValidSlug (Some (js ''my.link''))"
  using isValidSlug_exact
    [where slug = "Some (js ''my-link_01'')" and ?s2.0 = "js ''ab''"
       and ?s51.0 = "replicate 51 0x61" and t = "js ''my link''"]
    isValidSlug_exact
    [where slug = "Some (replicate 50 0x61)" and ?s2.0 = "js ''ab''"
       and ?s51.0 = "replicate 51 0x61" and t = "js ''my.link''"]
  by (simp add: js_def slugChar_def list_all_iff)

section \<open>Requests to the provider\<close>

lemma shorten_length: "length (snd (shorten URL post req)) \<le> 1"
  by (simp add: shorten_def Let_def split: sum.splits)

lemma shorten_none_iff:
  "snd (shorten URL post req) = [] \<longleftrightarrow>
     (\<exists>m c. fst (shorten URL post req) = Failure 400 m c
        \<and> c \<in> {MISSING_URL, INVALID_URL, INVALID_SLUG})
     \<or> (fst (shorten URL post req)
           = Failure 500 (js ''Failed to shorten URL. Please try again.'') INTERNAL_ERROR
         \<and> throws_before_call URL (Some req))"
  by (cases "body_url req"; cases "body_customSlug req")
    (auto simp: shorten_def Let_def trim_throws_def throws_before_call_def trimmed_customSlug_def
      shorten_catch_typeError shorten_catch_not_400 trim_Nil split: sum.splits)

lemma shorten_throws:
  "throws_before_call URL (Some req) \<Longrightarrow>
     shorten URL post req
       = (Failure 500 (js ''Failed to shorten URL. Please try again.'') INTERNAL_ERROR, [])"
  by (cases "body_url req"; cases "body_customSlug req")
    (auto simp: shorten_def Let_def trim_throws_def throws_before_call_def trimmed_customSlug_def
      shorten_catch_typeError trim_Nil split: sum.splits)

text \<open>
  C6, as amended. A call of the shorten proxy sends at most one request to the
  provider, whatever the provider answers: a provider failure, a timeout included, is
  answered from that one attempt. It sends none exactly when it answers 400 with
  MISSING_URL, INVALID_URL or INVALID_SLUG, or when the handler's own code throws
  before the call, which it answers with 500 and INTERNAL_ERROR: the body is unset, the
  \<open>url\<close> is truthy and not a string, or the url passes and the \<open>customSlug\<close> is truthy
  and not a string. It sends exactly one otherwise. So for a body whose fields are
  strings or absent it sends none exactly on the three validation errors.
\<close>

theorem shorten_single_attempt:
  "length (snd (shorten_route URL post body)) \<le> 1
   \<and> (snd (shorten_route URL post body) = [] \<longleftrightarrow>
        (\<exists>m c. fst (shorten_route URL post body) = Failure 400 m c
           \<and> c \<in> {MISSING_URL, INVALID_URL, INVALID_SLUG})
        \<or> throws_before_call URL body)
   \<and> (throws_before_call URL body \<longrightarrow>
        shorten_route URL post body
          = (Failure 500 (js ''Failed to shorten URL. Please try again.'') INTERNAL_ERROR, []))
   \<and> (body = Some req \<and> \<not> trim_throws (body_url req) \<and> \<not> trim_throws (body_customSlug req) \<longrightarrow>
        (snd (shorten_route URL post body) = [] \<longleftrightarrow>
        (\<exists>m c. fst (shorten_route URL post body) = Failure 400 m c
           \<and> c \<in> {MISSING_URL, INVALID_URL, INVALID_SLUG})))
   \<and> (\<not> (\<exists>m c. fst (shorten_route URL post body) = Failure 400 m c
           \<and> c \<in> {MISSING_URL, INVALID_URL, INVALID_SLUG})
        \<and> \<not> throws_before_call URL body
        \<longrightarrow> length (snd (shorten_route URL post body)) = 1)"
proof -
  have one: "length (snd (shorten_route URL post body)) \<le> 1"
  proof (cases body)
    case None
    then show ?thesis by (simp add: shorten_route_def)
  next
    case (Some r)
    then show ?thesis using shorten_length [of URL post r] by (simp add: shorten_route_def)
  qed
  have thrown: "throws_before_call URL body \<longrightarrow>
        shorten_route URL post body
          = (Failure 500 (js ''Failed to shorten URL. Please try again.'') INTERNAL_ERROR, [])"
    by (cases body) (simp_all add: shorten_route_def shorten_catch_typeError shorten_throws)
  have none: "snd (shorten_route URL post body) = [] \<longleftrightarrow>
        (\<exists>m c. fst (shorten_route URL post body) = Failure 400 m c
           \<and> c \<in> {MISSING_URL, INVALID_URL, INVALID_SLUG})
        \<or> throws_before_call URL body"
  proof (cases body)
    case None
    then show ?thesis by (simp add: shorten_route_def throws_before_call_def)
  next
    case (Some r)
    show ?thesis
      using shorten_none_iff [of URL post r] shorten_throws [of URL r post]
      by (auto simp: Some shorten_route_def)
  qed
  have typed: "body = Some req \<and> \<not> trim_throws (body_url req)
        \<and> \<not> trim_throws (body_customSlug req) \<longrightarrow> \<not> throws_before_call URL body"
    by (auto simp: throws_before_call_def)
  have exactly: "snd (shorten_route URL post body) \<noteq> [] \<longrightarrow>
        length (snd (shorten_route URL post body)) = 1"
    using one by (cases "snd (shorten_route URL post body)") auto
  from one none thrown typed exactly show ?thesis by blast
qed

text \<open>
  A provider that times out on every call is called once; a request with a url that
  does not parse, or a slug with a space, never reaches it.
\<close>

theorem shorten_single_attempt_witness:
  "shorten_route (\<lambda>s. if s = js ''https://example.com'' then Some \<lparr>protocol = js ''https:''\<rparr> else None)
      (\<lambda>d. Inl \<lparr>response = None, code = Some (js ''ECONNABORTED''),
                 error_message = js ''timeout of 10000ms exceeded''\<rparr>)
      (Some \<lparr>body_url = JString (js ''https://example.com''), body_customSlug = JUndefined\<rparr>)
    = (Failure 408 (js ''Request timeout. Please try again.'') TIMEOUT,
       [\<lparr>destination = js ''https://example.com'', domain_fullName = js ''rebrand.ly'',
         slashtag = None\<rparr>])
   \<and> snd (shorten_route (\<lambda>s. if s = js ''https://example.com'' then Some \<lparr>protocol = js ''https:''\<rparr> else None)
      (\<lambda>d. Inl \<lparr>response = None, code = Some (js ''ECONNABORTED''),
                 error_message = js ''timeout of 10000ms exceeded''\<rparr>)
      (Some \<lparr>body_url = JString (js ''not a url''), body_customSlug = JUndefined\<rparr>)) = []
   \<and> snd (shorten_route (\<lambda>s. if s = js ''https://example.com'' then Some \<lparr>protocol = js ''https:''\<rparr> else None)
      (\<lambda>d. Inl \<lparr>response = None, code = Some (js ''ECONNABORTED''),
                 error_message = js ''timeout of 10000ms exceeded''\<rparr>)
      (Some \<lparr>body_url = JString (js ''https://example.com''),
             body_customSlug = JString (js ''my link'')\<rparr>)) = []"
  using shorten_single_attempt
    [where URL = "\<lambda>s. if s = js ''https://example.com'' then Some \<lparr>protocol = js ''https:''\<rparr> else None"
       and post = "\<lambda>d. Inl \<lparr>response = None, code = Some (js ''ECONNABORTED''),
                 error_message = js ''timeout of 10000ms exceeded''\<rparr>"
       and body = "Some \<lparr>body_url = JString (js ''https://example.com''), body_customSlug = JUndefined\<rparr>"
       and req = "\<lparr>body_url = JString (js ''https://example.com''), body_customSlug = JUndefined\<rparr>"]
  by (simp add: shorten_route_def shorten_def Let_def truthy_def trimmed_customSlug_def
      isValidUrl_def isValidSlug_def slugRegex_test_def slugChar_def shorten_catch_def
      response_status_def trim_def isWhiteSpace_def js_def)

text \<open>
  The claim as written fails for the body \<open>{"url": 123}\<close>: \<open>url.trim\<close> is not a
  function, the \<open>catch\<close> block answers 500 with INTERNAL_ERROR, which is none of the
  three validation errors, and no request is sent.
\<close>

theorem shorten_non_string_url:
  "shorten_route (\<lambda>s. if s = js ''https://example.com'' then Some \<lparr>protocol = js ''https:''\<rparr> else None)
      (\<lambda>d. Inl \<lparr>response = None, code = Some (js ''ECONNABORTED''),
                 error_message = js ''timeout of 10000ms exceeded''\<rparr>)
      (Some \<lparr>body_url = JNumber 123, body_customSlug = JUndefined\<rparr>)
    = (Failure 500 (js ''Failed to shorten URL. Please try again.'') INTERNAL_ERROR, [])"
  by (simp add: shorten_route_def shorten_def shorten_catch_def typeError_def response_status_def)

section \<open>Credential probe\<close>

text \<open>
  C9. A failing credential probe answers 500 with a body whose \<open>success\<close> is false and
  whose code is INVALID_API_KEY if and only if the provider responded with status 403,
  and TEST_FAILED for every other failure; the provider's error is attached as
  \<open>details\<close> only: the response body when there is one, the error's message otherwise.
\<close>

theorem test_failure_code:
  "\<exists>b. test_route (Inl e) = TestFailure 500 b
       \<and> success b = False
       \<and> (failure_code b = INVALID_API_KEY \<longleftrightarrow> response_status e = Some 403)
       \<and> (response_status e \<noteq> Some 403 \<longrightarrow> failure_code b = TEST_FAILED)
       \<and> (\<forall>r d. response e = Some r \<and> data r = Some d \<longrightarrow> details b = Data d)
       \<and> ((\<forall>r. response e = Some r \<longrightarrow> data r = None) \<longrightarrow> details b = Message (error_message e))"
  by (cases "response e") (auto simp: test_route_def test_catch_def split: option.splits)

theorem test_failure_code_witness:
  "(case test_route
           (Inl \<lparr>response = Some \<lparr>status = 403, data = Some \<lparr>errors = None\<rparr>\<rparr>,
                 code = Some (js ''ERR_BAD_REQUEST''),
                 error_message = js ''Request failed with status code 403''\<rparr>) of
      TestFailure n b \<Rightarrow>
        n = 500 \<and> \<not> success b \<and> failure_code b = INVALID_API_KEY
        \<and> details b = Data \<lparr>errors = None\<rparr>
    | TestOk a \<Rightarrow> False)
   \<and> (case test_route
           (Inl \<lparr>response = None, code = Some (js ''ECONNABORTED''),
                 error_message = js ''timeout of 5000ms exceeded''\<rparr>) of
      TestFailure n b \<Rightarrow>
        n = 500 \<and> \<not> success b \<and> failure_code b = TEST_FAILED
        \<and> details b = Message (js ''timeout of 5000ms exceeded'')
    | TestOk a \<Rightarrow> False)"
  using test_failure_code
    [where e = "\<lparr>response = Some \<lparr>status = 403, data = Some \<lparr>errors = None\<rparr>\<rparr>,
                 code = Some (js ''ERR_BAD_REQUEST''),
                 error_message = js ''Request failed with status code 403''\<rparr>"]
    test_failure_code
    [where e = "\<lparr>response = None, code = Some (js ''ECONNABORTED''),
                 error_message = js ''timeout of 5000ms exceeded''\<rparr>"]
  by (auto simp: response_status_def)

section \<open>The custom slug is trimmed\<close>

text \<open>
  C10. The proxy validates and forwards the trimmed custom slug. With a url that
  passes: a non-empty slug whose trimmed content is invalid is answered INVALID_SLUG
  and nothing is sent; a slug whose trimmed content is valid is sent to the provider
  as slashtag, trimmed, and as no slashtag when the trimmed content is empty. Whatever
  the url: INVALID_SLUG is never the answer when the trimmed slug is valid; every
  request sent carries the trimmed slug, or none when it is empty; and a custom slug
  of white space only gives the same reply and the same provider request as an absent
  one.
\<close>

theorem shorten_trims_customSlug:
  "(body_customSlug req = JString s \<and> isValidSlug (Some (trim s)) \<longrightarrow>
      (\<forall>n m. fst (shorten URL post req) \<noteq> Failure n m INVALID_SLUG))
   \<and> (\<forall>d \<in> set (snd (shorten URL post (req\<lparr>body_customSlug := JString s\<rparr>))).
        slashtag d = (if trim s = [] then None else Some (trim s)))
   \<and> (trim s = [] \<longrightarrow>
        shorten URL post (req\<lparr>body_customSlug := JString s\<rparr>)
        = shorten URL post (req\<lparr>body_customSlug := JUndefined\<rparr>))
   \<and> (body_url req = JString u \<and> trim u \<noteq> [] \<and> isValidUrl URL (trim u)
        \<and> body_customSlug req = JString s \<and> s \<noteq> [] \<and> \<not> isValidSlug (Some (trim s)) \<longrightarrow>
        shorten URL post req
        = (Failure 400
             (js ''Custom slug must be 3-50 characters and contain only letters, numbers, hyphens, and underscores'')
             INVALID_SLUG, []))
   \<and> (body_url req = JString u \<and> trim u \<noteq> [] \<and> isValidUrl URL (trim u)
        \<and> body_customSlug req = JString s \<and> isValidSlug (Some (trim s)) \<longrightarrow>
        snd (shorten URL post req)
        = [\<lparr>destination = trim u, domain_fullName = js ''rebrand.ly'',
            slashtag = (if trim s = [] then None else Some (trim s))\<rparr>])"
proof -
  have a: "body_customSlug req = JString s \<and> isValidSlug (Some (trim s)) \<longrightarrow>
      (\<forall>n m. fst (shorten URL post req) \<noteq> Failure n m INVALID_SLUG)"
    by (auto simp: shorten_def Let_def trimmed_customSlug_def shorten_catch_code
        isValidSlug_None split: sum.splits)
  have b: "\<forall>d \<in> set (snd (shorten URL post (req\<lparr>body_customSlug := JString s\<rparr>))).
        slashtag d = (if trim s = [] then None else Some (trim s))"
    by (auto simp: shorten_def Let_def truthy_def trimmed_customSlug_def trim_Nil
        split: sum.splits)
  have c: "trim s = [] \<longrightarrow>
        shorten URL post (req\<lparr>body_customSlug := JString s\<rparr>)
        = shorten URL post (req\<lparr>body_customSlug := JUndefined\<rparr>)"
    by (auto simp: shorten_def Let_def truthy_def trimmed_customSlug_def isValidSlug_def
        split: sum.splits)
  have d: "body_url req = JString u \<and> trim u \<noteq> [] \<and> isValidUrl URL (trim u)
        \<and> body_customSlug req = JString s \<and> s \<noteq> [] \<and> \<not> isValidSlug (Some (trim s)) \<longrightarrow>
        shorten URL post req
        = (Failure 400
             (js ''Custom slug must be 3-50 characters and contain only letters, numbers, hyphens, and underscores'')
             INVALID_SLUG, [])"
    by (auto simp: shorten_def Let_def trimmed_customSlug_def trim_Nil)
  have e: "body_url req = JString u \<and> trim u \<noteq> [] \<and> isValidUrl URL (trim u)
        \<and> body_customSlug req = JString s \<and> isValidSlug (Some (trim s)) \<longrightarrow>
        snd (shorten URL post req)
        = [\<lparr>destination = trim u, domain_fullName = js ''rebrand.ly'',
            slashtag = (if trim s = [] then None else Some (trim s))\<rparr>]"
    by (auto simp: shorten_def Let_def truthy_def trimmed_customSlug_def trim_Nil isValidSlug_def
        split: sum.splits)
  from a b c d e show ?thesis by blast
qed

text \<open>
  The slug \<open>"  my-link "\<close> reaches the provider as \<open>"my-link"\<close>; the slug \<open>"   "\<close>
  reaches it as no slashtag; the slug \<open>" my link "\<close> is answered INVALID_SLUG and
  nothing is sent.
\<close>

theorem shorten_trims_customSlug_witness:
  "snd (shorten (\<lambda>s. Some \<lparr>protocol = js ''https:''\<rparr>)
      (\<lambda>d. Inl \<lparr>response = None, code = None, error_message = []\<rparr>)
      \<lparr>body_url = JString (js ''https://example.com''), body_customSlug = JString (js ''  my-link '')\<rparr>)
    = [\<lparr>destination = js ''https://example.com'', domain_fullName = js ''rebrand.ly'',
        slashtag = Some (js ''my-link'')\<rparr>]
   \<and> snd (shorten (\<lambda>s. Some \<lparr>protocol = js ''https:''\<rparr>)
      (\<lambda>d. Inl \<lparr>response = None, code = None, error_message = []\<rparr>)
      \<lparr>body_url = JString (js ''https://example.com''), body_customSlug = JString (js ''   '')\<rparr>)
    = [\<lparr>destination = js ''https://example.com'', domain_fullName = js ''rebrand.ly'',
        slashtag = None\<rparr>]
   \<and> shorten (\<lambda>s. Some \<lparr>protocol = js ''https:''\<rparr>)
      (\<lambda>d. Inl \<lparr>response = None, code = None, error_message = []\<rparr>)
      \<lparr>body_url = JString (js ''https://example.com''), body_customSlug = JString (js '' my link '')\<rparr>
    = (Failure 400
         (js ''Custom slug must be 3-50 characters and contain only letters, numbers, hyphens, and underscores'')
         INVALID_SLUG, [])"
  using shorten_trims_customSlug
    [where URL = "\<lambda>s. Some \<lparr>protocol = js ''https:''\<rparr>"
       and post = "\<lambda>d. Inl \<lparr>response = None, code = None, error_message = []\<rparr>"
       and req = "\<lparr>body_url = JString (js ''https://example.com''), body_customSlug = JString (js ''  my-link '')\<rparr>"
       and s = "js ''  my-link ''" and u = "js ''https://example.com''"]
    shorten_trims_customSlug
    [where URL = "\<lambda>s. Some \<lparr>protocol = js ''https:''\<rparr>"
       and post = "\<lambda>d. Inl \<lparr>response = None, code = None, error_message = []\<rparr>"
       and req = "\<lparr>body_url = JString (js ''https://example.com''), body_customSlug = JString (js ''   '')\<rparr>"
       and s = "js ''   ''" and u = "js ''https://example.com''"]
    shorten_trims_customSlug
    [where URL = "\<lambda>s. Some \<lparr>protocol = js ''https:''\<rparr>"
       and post = "\<lambda>d. Inl \<lparr>response = None, code = None, error_message = []\<rparr>"
       and req = "\<lparr>body_url = JString (js ''https://example.com''), body_customSlug = JString (js '' my link '')\<rparr>"
       and s = "js '' my link ''" and u = "js ''https://example.com''"]
  by (simp add: shorten_def Let_def truthy_def trimmed_customSlug_def isValidUrl_def isValidSlug_def
      slugRegex_test_def slugChar_def trim_def isWhiteSpace_def js_def)

section \<open>History store\<close>

lemma addToHistory_length: "length (addToHistory e h) \<le> 10"
  by (simp add: addToHistory_def)

lemma deleteFromHistory_length: "length (deleteFromHistory i h) \<le> length h"
  by (simp add: deleteFromHistory_def)

lemma stored_entries_loaded:
  "load_history JSON_parse item = Inr (EntryArray h) \<Longrightarrow> stored_entries JSON_parse item = h"
  by (simp add: stored_entries_def)

lemma histories_recorded_length:
  "(recorded, h) \<in> histories JSON_parse item \<Longrightarrow> recorded \<noteq> [] \<Longrightarrow> length h \<le> 10"
proof (induction rule: histories.induct)
  case (added recorded h e)
  show ?case by (rule addToHistory_length)
next
  case (deleted recorded h i)
  then show ?case using deleteFromHistory_length [of i h] by simp
next
  case (cleared recorded h)
  show ?case by (simp add: clearAllHistory_def)
qed simp_all

lemma histories_length:
  "(recorded, h) \<in> histories JSON_parse item
     \<Longrightarrow> length h \<le> max 10 (length (stored_entries JSON_parse item))"
proof (induction rule: histories.induct)
  case initial_history
  show ?case by simp
next
  case (loaded h)
  then show ?case by (simp add: stored_entries_loaded)
next
  case (added recorded h e)
  show ?case using addToHistory_length [of e h] by simp
next
  case (deleted recorded h i)
  then show ?case using deleteFromHistory_length [of i h] by simp
next
  case (cleared recorded h)
  show ?case by (simp add: clearAllHistory_def)
qed

lemma histories_newest_first:
  "(recorded, h) \<in> histories JSON_parse item
     \<Longrightarrow> subseq h (recorded @ stored_entries JSON_parse item)"
proof (induction rule: histories.induct)
  case initial_history
  show ?case by simp
next
  case (loaded h)
  then show ?case by (simp add: stored_entries_loaded)
next
  case (added recorded h e)
  have "subseq (take 9 h) h"
    by (metis append_take_drop_id prefix_def prefix_imp_subseq)
  from this added.IH have "subseq (take 9 h) (recorded @ stored_entries JSON_parse item)"
    by (rule subseq_order.trans)
  then show ?case by (simp add: addToHistory_def)
next
  case (deleted recorded h i)
  have "subseq (deleteFromHistory i h) h"
    by (simp add: deleteFromHistory_def)
  then show ?case using deleted.IH by (rule subseq_order.trans)
next
  case (cleared recorded h)
  show ?case by (simp add: clearAllHistory_def)
qed

lemma take_10_append_Cons_take_9:
  "take 10 (xs @ e # take 9 h) = take 10 (xs @ e # h)"
  by (cases "10 - length xs") (simp_all add: min_def)

lemma record_all_eq: "length h \<le> 10 \<Longrightarrow> record_all es h = take 10 (rev es @ h)"
proof (induction es arbitrary: h)
  case Nil
  then show ?case by simp
next
  case (Cons e es)
  have "record_all (e # es) h = take 10 (rev es @ e # take 9 h)"
    using Cons.IH [of "addToHistory e h"] by (simp add: addToHistory_def)
  also have "\<dots> = take 10 (rev es @ e # h)"
    by (rule take_10_append_Cons_take_9)
  finally show ?case by simp
qed

lemma record_all_nonempty: "es \<noteq> [] \<Longrightarrow> record_all es h = take 10 (rev es @ h)"
proof (cases es)
  case Nil
  moreover assume "es \<noteq> []"
  ultimately show ?thesis by simp
next
  case (Cons e es')
  have "record_all (e # es') h = take 10 (rev es' @ e # take 9 h)"
    using record_all_eq [of "addToHistory e h" es'] by (simp add: addToHistory_def)
  also have "\<dots> = take 10 (rev es' @ e # h)"
    by (rule take_10_append_Cons_take_9)
  finally show ?thesis by (simp add: Cons)
qed

lemma record_all_in_histories:
  "(recorded, h) \<in> histories JSON_parse item
     \<Longrightarrow> (rev es @ recorded, record_all es h) \<in> histories JSON_parse item"
proof (induction es arbitrary: recorded h)
  case Nil
  then show ?case by simp
next
  case (Cons e es)
  from Cons.prems have "(e # recorded, addToHistory e h) \<in> histories JSON_parse item"
    by (rule histories.added)
  from Cons.IH [OF this] show ?case by simp
qed

text \<open>
  C3, as amended. In a session, once an entry has been recorded the history holds at
  most 10 entries, and it never holds more than 10 or, if that is more, than the
  array loaded at mount, which is held as stored; so a session that loads at most 10
  entries, or none, always holds at most 10. The history is in newest-first order: it
  is a subsequence of the entries recorded in the session, the latest first, followed
  by the loaded array. Recording prepends the entry and truncates to 10: recording
  the entries \<open>es\<close> one after the other leaves the 10 first of \<open>es\<close> reversed followed
  by the previous history, so recording 11 entries on the empty history leaves the
  last 10 of them, the latest first, without the first one.
\<close>

theorem history_capped_newest_first:
  "(\<forall>(recorded, h) \<in> histories JSON_parse item.
        (recorded \<noteq> [] \<longrightarrow> length h \<le> 10)
      \<and> length h \<le> max 10 (length (stored_entries JSON_parse item))
      \<and> subseq h (recorded @ stored_entries JSON_parse item)
      \<and> (rev es @ recorded, record_all es h) \<in> histories JSON_parse item)
   \<and> length (addToHistory e prev) \<le> 10
   \<and> (es \<noteq> [] \<or> length prev \<le> 10 \<longrightarrow> record_all es prev = take 10 (rev es @ prev))
   \<and> (length es = 11 \<longrightarrow> record_all es [] = rev (tl es))"
proof -
  have inv: "\<forall>(recorded, h) \<in> histories JSON_parse item.
        (recorded \<noteq> [] \<longrightarrow> length h \<le> 10)
      \<and> length h \<le> max 10 (length (stored_entries JSON_parse item))
      \<and> subseq h (recorded @ stored_entries JSON_parse item)
      \<and> (rev es @ recorded, record_all es h) \<in> histories JSON_parse item"
    using histories_recorded_length histories_length histories_newest_first
      record_all_in_histories by blast
  have rec: "es \<noteq> [] \<or> length prev \<le> 10 \<longrightarrow> record_all es prev = take 10 (rev es @ prev)"
    using record_all_eq record_all_nonempty by blast
  have eleven: "length es = 11 \<longrightarrow> record_all es [] = rev (tl es)"
  proof
    assume len: "length es = 11"
    then obtain x xs where es: "es = x # xs" by (cases es) auto
    with len have "length xs = 10" by simp
    then show "record_all es [] = rev (tl es)"
      using record_all_eq [of "[]" es] by (simp add: es)
  qed
  from inv addToHistory_length rec eleven show ?thesis by blast
qed

text \<open>
  A fresh store (nothing in storage): entries 1 to 11, recorded in this order, leave
  11 down to 2, a history the session reaches.
\<close>

theorem history_capped_newest_first_witness:
  "record_all (map (\<lambda>n. \<lparr>entry_id = n, entry_originalUrl = [], entry_shortUrl = [], entry_customSlug = None, entry_createdAt = [], entry_rebrandlyId = []\<rparr>) [1, 2, 3, 4, 5, 6, 7, 8, 9, 10, 11]) []
   = map (\<lambda>n. \<lparr>entry_id = n, entry_originalUrl = [], entry_shortUrl = [], entry_customSlug = None, entry_createdAt = [], entry_rebrandlyId = []\<rparr>) [11, 10, 9, 8, 7, 6, 5, 4, 3, 2]
   \<and> (rev (map (\<lambda>n. \<lparr>entry_id = n, entry_originalUrl = [], entry_shortUrl = [], entry_customSlug = None, entry_createdAt = [], entry_rebrandlyId = []\<rparr>) [1, 2, 3, 4, 5, 6, 7, 8, 9, 10, 11]),
       map (\<lambda>n. \<lparr>entry_id = n, entry_originalUrl = [], entry_shortUrl = [], entry_customSlug = None, entry_createdAt = [], entry_rebrandlyId = []\<rparr>) [11, 10, 9, 8, 7, 6, 5, 4, 3, 2])
      \<in> histories (\<lambda>s. if s = js ''[]'' then Inr (EntryArray []) else Inl SyntaxError) None"
proof -
  have start: "([], []) \<in> histories (\<lambda>s. if s = js ''[]'' then Inr (EntryArray []) else Inl SyntaxError) None"
    by (rule histories.initial_history)
  from start history_capped_newest_first
    [where JSON_parse = "\<lambda>s. if s = js ''[]'' then Inr (EntryArray []) else Inl SyntaxError" and item = None
       and prev = "[]"
       and es = "map (\<lambda>n. \<lparr>entry_id = n, entry_originalUrl = [], entry_shortUrl = [], entry_customSlug = None, entry_createdAt = [], entry_rebrandlyId = []\<rparr>) [1, 2, 3, 4, 5, 6, 7, 8, 9, 10, 11]"]
  have eleven: "record_all (map (\<lambda>n. \<lparr>entry_id = n, entry_originalUrl = [], entry_shortUrl = [], entry_customSlug = None, entry_createdAt = [], entry_rebrandlyId = []\<rparr>) [1, 2, 3, 4, 5, 6, 7, 8, 9, 10, 11]) []
      = map (\<lambda>n. \<lparr>entry_id = n, entry_originalUrl = [], entry_shortUrl = [], entry_customSlug = None, entry_createdAt = [], entry_rebrandlyId = []\<rparr>) [11, 10, 9, 8, 7, 6, 5, 4, 3, 2]"
    and reached: "(rev (map (\<lambda>n. \<lparr>entry_id = n, entry_originalUrl = [], entry_shortUrl = [], entry_customSlug = None, entry_createdAt = [], entry_rebrandlyId = []\<rparr>) [1, 2, 3, 4, 5, 6, 7, 8, 9, 10, 11]) @ [],
        record_all (map (\<lambda>n. \<lparr>entry_id = n, entry_originalUrl = [], entry_shortUrl = [], entry_customSlug = None, entry_createdAt = [], entry_rebrandlyId = []\<rparr>) [1, 2, 3, 4, 5, 6, 7, 8, 9, 10, 11]) [])
      \<in> histories (\<lambda>s. if s = js ''[]'' then Inr (EntryArray []) else Inl SyntaxError) None"
    by (simp, blast)
  from reached show ?thesis unfolding eleven by simp
qed

text \<open>
  The claim as written fails for a session that finds twelve entries in storage: the
  mount effect holds all twelve, and eleven after one deletion.
\<close>

theorem history_loaded_untruncated:
  "([], map (\<lambda>n. \<lparr>entry_id = n, entry_originalUrl = [], entry_shortUrl = [], entry_customSlug = None, entry_createdAt = [], entry_rebrandlyId = []\<rparr>) [1, 2, 3, 4, 5, 6, 7, 8, 9, 10, 11, 12])
     \<in> histories (\<lambda>s. Inr (EntryArray (map (\<lambda>n. \<lparr>entry_id = n, entry_originalUrl = [], entry_shortUrl = [], entry_customSlug = None, entry_createdAt = [], entry_rebrandlyId = []\<rparr>) [1, 2, 3, 4, 5, 6, 7, 8, 9, 10, 11, 12]))) (Some (js ''twelve entries''))
   \<and> length (map (\<lambda>n. \<lparr>entry_id = n, entry_originalUrl = [], entry_shortUrl = [], entry_customSlug = None, entry_createdAt = [], entry_rebrandlyId = []\<rparr>) [1, 2, 3, 4, 5, 6, 7, 8, 9, 10, 11, 12]) = 12
   \<and> ([], map (\<lambda>n. \<lparr>entry_id = n, entry_originalUrl = [], entry_shortUrl = [], entry_customSlug = None, entry_createdAt = [], entry_rebrandlyId = []\<rparr>) [2, 3, 4, 5, 6, 7, 8, 9, 10, 11, 12])
     \<in> histories (\<lambda>s. Inr (EntryArray (map (\<lambda>n. \<lparr>entry_id = n, entry_originalUrl = [], entry_shortUrl = [], entry_customSlug = None, entry_createdAt = [], entry_rebrandlyId = []\<rparr>) [1, 2, 3, 4, 5, 6, 7, 8, 9, 10, 11, 12]))) (Some (js ''twelve entries''))
   \<and> length (map (\<lambda>n. \<lparr>entry_id = n, entry_originalUrl = [], entry_shortUrl = [], entry_customSlug = None, entry_createdAt = [], entry_rebrandlyId = []\<rparr>) [2, 3, 4, 5, 6, 7, 8, 9, 10, 11, 12]) = 11"
proof -
  have twelve: "([], map (\<lambda>n. \<lparr>entry_id = n, entry_originalUrl = [], entry_shortUrl = [], entry_customSlug = None, entry_createdAt = [], entry_rebrandlyId = []\<rparr>) [1, 2, 3, 4, 5, 6, 7, 8, 9, 10, 11, 12])
     \<in> histories (\<lambda>s. Inr (EntryArray (map (\<lambda>n. \<lparr>entry_id = n, entry_originalUrl = [], entry_shortUrl = [], entry_customSlug = None, entry_createdAt = [], entry_rebrandlyId = []\<rparr>) [1, 2, 3, 4, 5, 6, 7, 8, 9, 10, 11, 12]))) (Some (js ''twelve entries''))"
    by (rule histories.loaded) (simp add: load_history_def or_else_def js_def)
  have "([], deleteFromHistory 1 (map (\<lambda>n. \<lparr>entry_id = n, entry_originalUrl = [], entry_shortUrl = [], entry_customSlug = None, entry_createdAt = [], entry_rebrandlyId = []\<rparr>) [1, 2, 3, 4, 5, 6, 7, 8, 9, 10, 11, 12]))
     \<in> histories (\<lambda>s. Inr (EntryArray (map (\<lambda>n. \<lparr>entry_id = n, entry_originalUrl = [], entry_shortUrl = [], entry_customSlug = None, entry_createdAt = [], entry_rebrandlyId = []\<rparr>) [1, 2, 3, 4, 5, 6, 7, 8, 9, 10, 11, 12]))) (Some (js ''twelve entries''))"
    using twelve by (rule histories.deleted)
  then have eleven: "([], map (\<lambda>n. \<lparr>entry_id = n, entry_originalUrl = [], entry_shortUrl = [], entry_customSlug = None, entry_createdAt = [], entry_rebrandlyId = []\<rparr>) [2, 3, 4, 5, 6, 7, 8, 9, 10, 11, 12])
     \<in> histories (\<lambda>s. Inr (EntryArray (map (\<lambda>n. \<lparr>entry_id = n, entry_originalUrl = [], entry_shortUrl = [], entry_customSlug = None, entry_createdAt = [], entry_rebrandlyId = []\<rparr>) [1, 2, 3, 4, 5, 6, 7, 8, 9, 10, 11, 12]))) (Some (js ''twelve entries''))"
    by (simp add: deleteFromHistory_def)
  from twelve eleven show ?thesis by simp
qed

section \<open>Entry ids\<close>










section \<open>Loading the history\<close>

text \<open>
  C4. The claim: loading returns a list for every persisted value and never raises,
  malformed data giving the empty list. The code parses the stored text outside any
  \<open>try\<close>: for a stored, non-empty text on which \<open>JSON.parse\<close> throws, loading throws
  the same SyntaxError; for one that parses to a value that is not an array, loading
  returns that value; only the absent item is replaced, by \<open>'[]'\<close>.
\<close>

theorem load_history_raises:
  "(raw \<noteq> [] \<and> JSON_parse raw = Inl SyntaxError \<longrightarrow>
      load_history JSON_parse (Some raw) = Inl SyntaxError)
   \<and> (raw \<noteq> [] \<and> JSON_parse raw = Inr OtherValue \<longrightarrow>
      load_history JSON_parse (Some raw) = Inr OtherValue)
   \<and> load_history JSON_parse None = JSON_parse (js ''[]'')"
  by (simp add: load_history_def or_else_def)

text \<open>
  With a parser that reads \<open>[]\<close> as the empty array and \<open>{}\<close> as an object, and throws
  on \<open>not json\<close>.
\<close>

theorem load_history_raises_witness:
  "load_history (\<lambda>s. if s = js ''[]'' then Inr (EntryArray []) else if s = js ''{}'' then Inr OtherValue else Inl SyntaxError)
      (Some (js ''not json'')) = Inl SyntaxError
   \<and> load_history (\<lambda>s. if s = js ''[]'' then Inr (EntryArray []) else if s = js ''{}'' then Inr OtherValue else Inl SyntaxError)
      (Some (js ''{}'')) = Inr OtherValue
   \<and> load_history (\<lambda>s. if s = js ''[]'' then Inr (EntryArray []) else if s = js ''{}'' then Inr OtherValue else Inl SyntaxError)
      None = Inr (EntryArray [])"
  using load_history_raises
    [where raw = "js ''not json''"
       and JSON_parse = "\<lambda>s. if s = js ''[]'' then Inr (EntryArray []) else if s = js ''{}'' then Inr OtherValue else Inl SyntaxError"]
    load_history_raises
    [where raw = "js ''{}''"
       and JSON_parse = "\<lambda>s. if s = js ''[]'' then Inr (EntryArray []) else if s = js ''{}'' then Inr OtherValue else Inl SyntaxError"]
  by (simp add: js_def)

section \<open>Submitting while the badge reads error\<close>

text \<open>
  C7. The claim: no submission is issued while the view is submitting or the badge
  reads error, on every submission path. The button is disabled in both cases, and
  Enter is ignored while submitting; but \<open>handleKeyPress\<close> does not read \<open>apiStatus\<close>:
  in a state whose badge reads error, that is not submitting and whose url is valid,
  the button does nothing and Enter issues the request.
\<close>

theorem enter_submits_while_error:
  "(isLoading st \<longrightarrow>
      click_button URL st = (st, None) \<and> handleKeyPress URL key st = (st, None))
   \<and> (apiStatus st = Error \<longrightarrow> click_button URL st = (st, None))
   \<and> (apiStatus st = Error \<and> \<not> isLoading st \<and> trim (url st) \<noteq> []
        \<and> isValidUrl_client URL (fullUrl_of (url st)) \<longrightarrow>
      handleKeyPress URL (js ''Enter'') st
        = (st\<lparr>isLoading := True, error := [], shortenedUrl := []\<rparr>,
           Some \<lparr>fetch_url = fullUrl_of (url st),
                 fetch_customSlug =
                   (if trim (customSlug st) = [] then None else Some (trim (customSlug st)))\<rparr>))"
  by (simp add: button_disabled_def click_button_def handleKeyPress_def shortenUrl_def)

text \<open>
  From the initial state: the probe fails, the user types \<open>https://example.com\<close> and
  presses Enter.
\<close>

theorem enter_submits_while_error_witness:
  "apiStatus ((testApiConnection None initial_state)\<lparr>url := js ''https://example.com''\<rparr>) = Error
   \<and> click_button (\<lambda>s. if s = js ''https://example.com'' then Some \<lparr>protocol = js ''https:''\<rparr> else None)
        ((testApiConnection None initial_state)\<lparr>url := js ''https://example.com''\<rparr>)
      = ((testApiConnection None initial_state)\<lparr>url := js ''https://example.com''\<rparr>, None)
   \<and> snd (handleKeyPress (\<lambda>s. if s = js ''https://example.com'' then Some \<lparr>protocol = js ''https:''\<rparr> else None)
        (js ''Enter'') ((testApiConnection None initial_state)\<lparr>url := js ''https://example.com''\<rparr>))
      = Some \<lparr>fetch_url = js ''https://example.com'', fetch_customSlug = None\<rparr>"
  using enter_submits_while_error
    [where st = "(testApiConnection None initial_state)\<lparr>url := js ''https://example.com''\<rparr>"
       and URL = "\<lambda>s. if s = js ''https://example.com'' then Some \<lparr>protocol = js ''https:''\<rparr> else None"]
  by (simp add: testApiConnection_def initial_state_def isValidUrl_client_def fullUrl_of_def
      has_http_prefix_def trim_def isWhiteSpace_def js_def)

end
